theory Spec2Isabelle
  imports Main "HOL-Library.Word"
begin

section \<open>Values shared by both upload handlers\<close>

text \<open>
  The repository is one Go file, \<^verbatim>\<open>handler_upload_thumbnail.go\<close>, holding two HTTP
  handlers (\<^verbatim>\<open>handlerUploadThumbnail\<close>, \<^verbatim>\<open>handlerUploadVideo\<close>) and the helpers
  \<^verbatim>\<open>getVideoAspectRatio\<close> and \<^verbatim>\<open>processVideoForFastStart\<close>. Every call that
  leaves the Go process (token validation, the metadata store, the file system, the
  random source, the external tools, the object store) is read from an environment
  record, so that each of its outcomes, the failures included, is an input of the model.
\<close>

type_synonym byte = "8 word"

text \<open>A Go \<^verbatim>\<open>error\<close> value, by its message.\<close>

datatype error = Error string

type_synonym uuid = string

subsection \<open>The metadata store\<close>

text \<open>
  Modelled from the spec: the video record (\<^verbatim>\<open>database.Video\<close>) is declared outside
  the source file; the spec gives it an identifier, an owning user and the optional
  thumbnail and video URLs, which are the fields the handlers read and write.
\<close>

record video =
  ID :: uuid
  UserID :: uuid
  ThumbnailURL :: "string option"
  VideoURL :: "string option"

text \<open>The store's table of videos, one row per record.\<close>

type_synonym db = "video list"

subsection \<open>Responses\<close>

datatype json_body = ErrorBody string | EmptyObject | VideoBody video

record response =
  status :: nat
  body :: json_body

definition StatusOK :: nat where "StatusOK = 200"
definition StatusBadRequest :: nat where "StatusBadRequest = 400"
definition StatusUnauthorized :: nat where "StatusUnauthorized = 401"
definition StatusInternalServerError :: nat where "StatusInternalServerError = 500"

text \<open>
  Modelled from the spec: \<^verbatim>\<open>respondWithError\<close> and \<^verbatim>\<open>respondWithJSON\<close> are declared
  outside the source file. The spec describes a failure response as a JSON object carrying
  the message under the given HTTP status (the error value is only logged), and a success
  response as the JSON encoding of the payload under the given status.
\<close>

definition respondWithError :: "nat \<Rightarrow> string \<Rightarrow> error option \<Rightarrow> response" where
  "respondWithError code msg err = \<lparr>status = code, body = ErrorBody msg\<rparr>"

definition respondWithJSON :: "nat \<Rightarrow> json_body \<Rightarrow> response" where
  "respondWithJSON code payload = \<lparr>status = code, body = payload\<rparr>"

subsection \<open>External commands\<close>

text \<open>
  How a run of \<^verbatim>\<open>exec.Cmd.Run\<close> ends: the tool ran and exited with a status, or it
  could not be started at all. \<^verbatim>\<open>Run\<close> returns \<^verbatim>\<open>nil\<close> only for exit status 0.
\<close>

datatype cmd_outcome = Exited nat | StartFailed

fun Run_error :: "cmd_outcome \<Rightarrow> error option" where
  "Run_error (Exited c) = (if c = 0 then None else Some (Error ''exit status''))"
| "Run_error StartFailed = Some (Error ''executable file not found'')"

text \<open>
  One stream object of the tool's JSON output, each key present or absent, and the Go
  struct \<^verbatim>\<open>json.Unmarshal\<close> fills from it: an absent key leaves the field at its zero
  value.
\<close>

record json_stream =
  js_width :: "int option"
  js_height :: "int option"
  js_display_aspect_ratio :: "string option"

record stream =
  Width :: int
  Height :: int
  DisplayAspectRatio :: string

definition decode_stream :: "json_stream \<Rightarrow> stream" where
  "decode_stream j =
     \<lparr>Width = (case js_width j of None \<Rightarrow> 0 | Some w \<Rightarrow> w),
      Height = (case js_height j of None \<Rightarrow> 0 | Some h \<Rightarrow> h),
      DisplayAspectRatio = (case js_display_aspect_ratio j of None \<Rightarrow> [] | Some a \<Rightarrow> a)\<rparr>"

subsection \<open>Requests\<close>

text \<open>
  One file part of a multipart form: the file name and the content type its part header
  declares (both chosen by the client) and its bytes.
\<close>

record form_file =
  Filename :: string
  fh_ContentType :: string
  content :: "byte list"

text \<open>
  A request body as its reader sees it: how many bytes it holds, and the cap a
  \<^verbatim>\<open>http.MaxBytesReader\<close> wrapped around it enforces (none for the body the server
  hands to a handler).
\<close>

record body_reader =
  body_size :: nat
  body_limit :: "nat option"

text \<open>
  \<^verbatim>\<open>http.MaxBytesReader(w, body, n)\<close> returns a new reader that fails once more than
  \<open>n\<close> bytes are read from it. It does not change the reader it is given.
\<close>

definition MaxBytesReader :: "body_reader \<Rightarrow> nat \<Rightarrow> body_reader" where
  "MaxBytesReader b n =
     b\<lparr>body_limit := Some (case body_limit b of None \<Rightarrow> n | Some m \<Rightarrow> min m n)\<rparr>"

definition too_large :: "body_reader \<Rightarrow> bool" where
  "too_large b = (case body_limit b of None \<Rightarrow> False | Some n \<Rightarrow> n < body_size b)"

text \<open>
  The request: \<open>form_data\<close> is what the body decodes to as \<^verbatim>\<open>multipart/form-data\<close>
  (nothing when it is not such a form), \<open>ParseForm_error\<close> the error of
  \<^verbatim>\<open>r.ParseForm\<close> on the URL query, and \<open>MultipartForm\<close> the field of that name,
  \<^verbatim>\<open>nil\<close> until the form has been parsed.
\<close>

record request =
  PathValue :: "string \<Rightarrow> string"
  Header :: "(string \<times> string) list"
  Body :: body_reader
  form_data :: "(string \<times> form_file) list option"
  ParseForm_error :: "error option"
  MultipartForm :: "(string \<times> form_file) list option"

text \<open>Reading the whole body through its reader and decoding it.\<close>

definition read_form :: "request \<Rightarrow> error + (string \<times> form_file) list" where
  "read_form r =
     (if too_large (Body r) then Inl (Error ''http: request body too large'')
      else case form_data r of
             None \<Rightarrow> Inl (Error ''request Content-Type isn't multipart/form-data'')
           | Some f \<Rightarrow> Inr f)"

text \<open>
  \<^verbatim>\<open>r.ParseMultipartForm(maxMemory)\<close> of net/http: nothing to do when the form is
  parsed already; otherwise the body is read and decoded, \<open>MultipartForm\<close> is set, and
  the error of \<^verbatim>\<open>ParseForm\<close> is what is returned. \<open>maxMemory\<close> decides which file
  parts are kept in memory and which are written to temporary files; those effects are
  \<open>ParseMultipartForm_effects\<close> below.
\<close>

definition ParseMultipartForm :: "request \<Rightarrow> nat \<Rightarrow> request \<times> error option" where
  "ParseMultipartForm r maxMemory =
     (case MultipartForm r of
        Some f \<Rightarrow> (r, None)
      | None \<Rightarrow>
          (case read_form r of
             Inl e \<Rightarrow> (r, Some e)
           | Inr f \<Rightarrow> (r\<lparr>MultipartForm := Some f\<rparr>, ParseForm_error r)))"

definition defaultMaxMemory :: nat where
  "defaultMaxMemory = 32 * 2 ^ 20"

text \<open>
  \<^verbatim>\<open>r.FormFile(key)\<close> of net/http: parses the form when it is not parsed yet, failing
  with the parse's error, and returns the first file under \<open>key\<close>. The temporary files
  that parse writes are \<open>FormFile_effects\<close> below.
\<close>

definition FormFile :: "request \<Rightarrow> string \<Rightarrow> error + form_file" where
  "FormFile r key =
     (case (case MultipartForm r of
              None \<Rightarrow> ParseMultipartForm r defaultMaxMemory
            | Some f \<Rightarrow> (r, None)) of
        (r', Some e) \<Rightarrow> Inl e
      | (r', None) \<Rightarrow>
          (case MultipartForm r' of
             None \<Rightarrow> Inl (Error ''http: no such file'')
           | Some files \<Rightarrow>
               (case map_of files key of
                  None \<Rightarrow> Inl (Error ''http: no such file'')
                | Some f \<Rightarrow> Inr f)))"

subsection \<open>Configuration and environment\<close>

text \<open>
  The fields of \<^verbatim>\<open>apiConfig\<close> the two handlers read. Its \<^verbatim>\<open>db\<close> and
  \<^verbatim>\<open>s3Client\<close> handles are the store passed to the handlers and the \<open>PutObject\<close> entry
  of the environment.
\<close>

record apiConfig =
  jwtSecret :: string
  assetsRoot :: string
  port :: string
  s3Bucket :: string
  s3CfDistribution :: string

text \<open>
  What the world outside the handlers answers. \<open>io_Copy\<close> gives, for a destination path
  and the bytes to copy, how many bytes were written and the error, if any; \<open>exec_Run\<close>
  gives how a command ends and what it printed; \<open>os_OpenFile\<close> gives the bytes of the file
  opened for reading.
\<close>

record env =
  uuid_Parse :: "string \<Rightarrow> error + uuid"
  GetBearerToken :: "(string \<times> string) list \<Rightarrow> error + string"
  ValidateJWT :: "string \<Rightarrow> string \<Rightarrow> error + uuid"
  ParseMediaType :: "string \<Rightarrow> error + string"
  ReadAll_error :: "error option"
  GetVideo_error :: "error option"
  UpdateVideo_error :: "error option"
  rand_stream :: "nat \<Rightarrow> byte"
  rand_error :: "error option"
  filepath_Join :: "string \<Rightarrow> string \<Rightarrow> string"
  os_Create :: "string \<Rightarrow> error option"
  io_Copy :: "string \<Rightarrow> byte list \<Rightarrow> nat \<times> error option"
  os_CreateTemp :: "string \<Rightarrow> string \<Rightarrow> error + string"
  exec_Run :: "string \<Rightarrow> string list \<Rightarrow> cmd_outcome \<times> string"
  json_parse :: "string \<Rightarrow> error + json_stream list"
  os_OpenFile :: "string \<Rightarrow> error + byte list"
  PutObject :: "string \<Rightarrow> string \<Rightarrow> string \<Rightarrow> byte list \<Rightarrow> error option"

text \<open>
  The effects a handler has outside the metadata store, in the order they happen.
  \<open>TempFileCreated\<close> is a temporary file the handler itself creates with
  \<^verbatim>\<open>os.CreateTemp\<close>; \<open>FormFileSpilled key\<close> is a temporary file (\<^verbatim>\<open>multipart-*\<close> in
  the system's temporary directory) that net/http writes while it reads the form, holding
  the file part under the form key \<open>key\<close>.
\<close>

datatype event =
    Printed
  | FileCreated string
  | FileWritten string "byte list"
  | TempFileCreated string
  | FormFileSpilled string
  | FileRemoved string
  | CommandRun string "string list"
  | ObjectPut string string string "byte list"
  | VideoUpdated video

text \<open>
  What reading the form writes to disk (\<^verbatim>\<open>ReadForm\<close> of mime/multipart). The file parts
  are taken in order; a part is kept in memory when it fits what is left of the budget
  \<open>maxMemory\<close>, which it then uses up, and a part larger than what is left is written to
  a temporary file. Nothing is recorded for a form that cannot be read.
\<close>

fun spilled :: "nat \<Rightarrow> (string \<times> form_file) list \<Rightarrow> event list" where
  "spilled budget [] = []"
| "spilled budget ((key, f) # rest) =
     (if budget < length (content f) then FormFileSpilled key # spilled budget rest
      else spilled (budget - length (content f)) rest)"

definition ParseMultipartForm_effects :: "request \<Rightarrow> nat \<Rightarrow> event list" where
  "ParseMultipartForm_effects r maxMemory =
     (case MultipartForm r of
        Some f \<Rightarrow> []
      | None \<Rightarrow>
          (case read_form r of
             Inl e \<Rightarrow> []
           | Inr f \<Rightarrow> spilled maxMemory f))"

definition FormFile_effects :: "request \<Rightarrow> string \<Rightarrow> event list" where
  "FormFile_effects r key =
     (case MultipartForm r of
        None \<Rightarrow> ParseMultipartForm_effects r defaultMaxMemory
      | Some f \<Rightarrow> [])"

text \<open>
  Modelled from the spec: \<^verbatim>\<open>cfg.db.GetVideo\<close> and \<^verbatim>\<open>cfg.db.UpdateVideo\<close> belong to
  the metadata store, which is outside the source file. A read fails when the store fails
  or holds no row with the identifier; an update that fails leaves the store as it was,
  and one that succeeds replaces the row that has the record's identifier.
\<close>

definition GetVideo :: "env \<Rightarrow> db \<Rightarrow> uuid \<Rightarrow> error + video" where
  "GetVideo env d videoID =
     (case GetVideo_error env of
        Some e \<Rightarrow> Inl e
      | None \<Rightarrow>
          (case find (\<lambda>v. ID v = videoID) d of
             None \<Rightarrow> Inl (Error ''sql: no rows in result set'')
           | Some v \<Rightarrow> Inr v))"

definition UpdateVideo :: "env \<Rightarrow> db \<Rightarrow> video \<Rightarrow> error + db" where
  "UpdateVideo env d v =
     (case UpdateVideo_error env of
        Some e \<Rightarrow> Inl e
      | None \<Rightarrow> Inr (map (\<lambda>row. if ID row = ID v then v else row) d))"

text \<open>\<^verbatim>\<open>io.ReadAll\<close> on an opened form file.\<close>

definition ReadAll :: "env \<Rightarrow> form_file \<Rightarrow> error + byte list" where
  "ReadAll env f = (case ReadAll_error env of Some e \<Rightarrow> Inl e | None \<Rightarrow> Inr (content f))"

text \<open>
  \<^verbatim>\<open>rand.Read\<close> on a buffer of \<open>n\<close> bytes: on success the buffer holds the next \<open>n\<close>
  bytes of the random source.
\<close>

definition rand_Read :: "env \<Rightarrow> nat \<Rightarrow> error + byte list" where
  "rand_Read env n =
     (case rand_error env of Some e \<Rightarrow> Inl e | None \<Rightarrow> Inr (map (rand_stream env) [0..<n]))"

text \<open>
  \<^verbatim>\<open>json.Unmarshal\<close> into the anonymous struct of \<^verbatim>\<open>getVideoAspectRatio\<close>: the
  \<^verbatim>\<open>streams\<close> array of the document, each element decoded field by field.
\<close>

definition json_Unmarshal :: "env \<Rightarrow> string \<Rightarrow> error + stream list" where
  "json_Unmarshal env s =
     (case json_parse env s of Inl e \<Rightarrow> Inl e | Inr js \<Rightarrow> Inr (map decode_stream js))"

subsection \<open>Strings and base64\<close>

text \<open>\<^verbatim>\<open>strings.Split(s, sep)\<close> for a separator of one character.\<close>

fun strings_Split :: "string \<Rightarrow> char \<Rightarrow> string list" where
  "strings_Split [] sep = [[]]"
| "strings_Split (c # cs) sep =
     (if c = sep then [] # strings_Split cs sep
      else (case strings_Split cs sep of
              [] \<Rightarrow> [[c]]
            | p # ps \<Rightarrow> (c # p) # ps))"

text \<open>
  \<^verbatim>\<open>encoding/base64\<close>: an encoding is its alphabet of 64 characters and its padding
  character. \<^verbatim>\<open>URLEncoding\<close> and \<^verbatim>\<open>RawURLEncoding\<close> share the alphabet of RFC 4648
  for URLs and file names; the raw one does not pad.
\<close>

record Encoding =
  encode :: string
  padChar :: "char option"

definition encodeURL :: string where
  "encodeURL = ''ABCDEFGHIJKLMNOPQRSTUVWXYZabcdefghijklmnopqrstuvwxyz0123456789-_''"

definition URLEncoding :: Encoding where
  "URLEncoding = \<lparr>encode = encodeURL, padChar = Some CHR ''=''\<rparr>"

definition RawURLEncoding :: Encoding where
  "RawURLEncoding = \<lparr>encode = encodeURL, padChar = None\<rparr>"

text \<open>
  \<^verbatim>\<open>EncodeToString\<close>: three bytes make a 24-bit value and four characters, each the
  alphabet's entry at six of its bits (\<^verbatim>\<open>val>>18&0x3F\<close> is \<open>val div 2 ^ 18 mod 64\<close>);
  one or two bytes left over make two or three characters and the padding.
\<close>

fun EncodeToString :: "Encoding \<Rightarrow> byte list \<Rightarrow> string" where
  "EncodeToString enc [] = []"
| "EncodeToString enc [a] =
     (let val = unat a * 2 ^ 16
      in [encode enc ! (val div 2 ^ 18 mod 64), encode enc ! (val div 2 ^ 12 mod 64)] @
         (case padChar enc of None \<Rightarrow> [] | Some p \<Rightarrow> [p, p]))"
| "EncodeToString enc [a, b] =
     (let val = unat a * 2 ^ 16 + unat b * 2 ^ 8
      in [encode enc ! (val div 2 ^ 18 mod 64), encode enc ! (val div 2 ^ 12 mod 64),
          encode enc ! (val div 2 ^ 6 mod 64)] @
         (case padChar enc of None \<Rightarrow> [] | Some p \<Rightarrow> [p]))"
| "EncodeToString enc (a # b # c # rest) =
     (let val = unat a * 2 ^ 16 + unat b * 2 ^ 8 + unat c
      in [encode enc ! (val div 2 ^ 18 mod 64), encode enc ! (val div 2 ^ 12 mod 64),
          encode enc ! (val div 2 ^ 6 mod 64), encode enc ! (val mod 64)] @
         EncodeToString enc rest)"

section \<open>The sub-routines of the video upload\<close>

text \<open>
  \<^verbatim>\<open>getVideoAspectRatio\<close> (lines 299-329): runs \<^verbatim>\<open>ffprobe\<close> on the file, decodes
  what it printed and returns the display aspect ratio of the first stream. The second
  component is the command it ran.
\<close>

definition getVideoAspectRatio :: "env \<Rightarrow> string \<Rightarrow> (error + string) \<times> event list" where
  "getVideoAspectRatio env filePath =
     (let args = [''-v'', ''error'', ''-print_format'', ''json'', ''-show_streams'', filePath];
          (outcome, out) = exec_Run env ''ffprobe'' args
      in (case Run_error outcome of
            Some err \<Rightarrow> Inl err
          | None \<Rightarrow>
              (case json_Unmarshal env out of
                 Inl err \<Rightarrow> Inl err
               | Inr Streams \<Rightarrow>
                   if length Streams = 0 then Inl (Error ''No streams found'')
                   else Inr (DisplayAspectRatio (Streams ! 0))),
          [CommandRun ''ffprobe'' args]))"

text \<open>
  \<^verbatim>\<open>processVideoForFastStart\<close> (lines 335-344): runs \<^verbatim>\<open>ffmpeg\<close> with the input path
  and, as its last argument, the output path \<^verbatim>\<open>tmpName\<close>.
\<close>

definition processVideoForFastStart :: "env \<Rightarrow> string \<Rightarrow> (error + string) \<times> event list" where
  "processVideoForFastStart env filePath =
     (let tmpName = filePath @ ''.processing'';
          args = [''-i'', filePath, ''-c'', ''copy'', ''-movflags'', ''faststart'', ''-f'', ''mp4'',
                  tmpName];
          (outcome, out) = exec_Run env ''ffmpeg'' args
      in (case Run_error outcome of
            Some err \<Rightarrow> Inl err
          | None \<Rightarrow> Inr tmpName,
          [CommandRun ''ffmpeg'' args]))"

text \<open>
  The choice of the storage prefix in \<^verbatim>\<open>handlerUploadVideo\<close> (line 220 and the switch
  of lines 226-231).
\<close>

definition choosePrefix :: "string \<Rightarrow> string" where
  "choosePrefix aspectRation =
     (let prefix = ''other''
      in if aspectRation = ''16:9'' then ''landscape''
         else if aspectRation = ''9:16'' then ''portrait''
         else prefix)"

section \<open>The handlers\<close>

text \<open>
  A handler takes the environment, the configuration, the request and the metadata store,
  and gives the response it writes, the store it leaves and the effects it had.
  \<open>emit\<close> puts effects before those of the rest of the handler; \<open>deferred\<close> is Go's
  \<^verbatim>\<open>defer\<close>: the effect happens when the rest of the handler has returned.
\<close>

type_synonym outcome = "response \<times> db \<times> event list"

definition emit :: "event list \<Rightarrow> outcome \<Rightarrow> outcome" where
  "emit evs rest = (case rest of (resp, d, later) \<Rightarrow> (resp, d, evs @ later))"

definition deferred :: "event \<Rightarrow> outcome \<Rightarrow> outcome" where
  "deferred ev rest = (case rest of (resp, d, evs) \<Rightarrow> (resp, d, evs @ [ev]))"

text \<open>
  \<^verbatim>\<open>handlerUploadThumbnail\<close> (lines 19-123). The error \<^verbatim>\<open>ParseMultipartForm\<close> returns
  (line 43) and both results of \<^verbatim>\<open>io.Copy\<close> (line 104) are dropped, as in the source.
  Closing the two files has no effect the model records. Reading the form (lines 43 and
  46) may write temporary files.
\<close>

definition handlerUploadThumbnail :: "env \<Rightarrow> apiConfig \<Rightarrow> request \<Rightarrow> db \<Rightarrow> outcome" where
  "handlerUploadThumbnail env cfg r d =
    (case uuid_Parse env (PathValue r ''videoID'') of
       Inl err \<Rightarrow> (respondWithError StatusBadRequest ''Invalid ID'' (Some err), d, [])
     | Inr videoID \<Rightarrow>
    (case GetBearerToken env (Header r) of
       Inl err \<Rightarrow> (respondWithError StatusUnauthorized ''Couldn't find JWT'' (Some err), d, [])
     | Inr token \<Rightarrow>
    (case ValidateJWT env token (jwtSecret cfg) of
       Inl err \<Rightarrow>
         (respondWithError StatusUnauthorized ''Couldn't validate JWT'' (Some err), d, [])
     | Inr userID \<Rightarrow>
    emit [Printed]
    (let maxMemory = 10 * 2 ^ 20;
         parse_effects = ParseMultipartForm_effects r maxMemory;
         (r, dropped_error) = ParseMultipartForm r maxMemory
     in
    emit (parse_effects @ FormFile_effects r ''thumbnail'')
    (case FormFile r ''thumbnail'' of
       Inl err \<Rightarrow>
         (respondWithError StatusBadRequest ''Unable to parse form file'' (Some err), d, [])
     | Inr header \<Rightarrow>
    (let ContentType = fh_ContentType header in
    (case ReadAll env header of
       Inl err \<Rightarrow>
         (respondWithError StatusInternalServerError ''Couldn't read file'' (Some err), d, [])
     | Inr data \<Rightarrow>
    (case GetVideo env d videoID of
       Inl err \<Rightarrow>
         (respondWithError StatusInternalServerError ''Couldn't get video'' (Some err), d, [])
     | Inr VideoMeta \<Rightarrow>
    (if UserID VideoMeta \<noteq> userID
     then (respondWithError StatusUnauthorized ''Not your video'' None, d, [])
     else
    (case ParseMediaType env ContentType of
       Inl err \<Rightarrow> (respondWithError StatusBadRequest ''Invalid media type'' (Some err), d, [])
     | Inr mediaType \<Rightarrow>
    (if mediaType \<noteq> ''image/jpeg'' \<and> mediaType \<noteq> ''image/png''
     then (respondWithError StatusBadRequest ''Invalid media type'' None, d, [])
     else
    (let parts = strings_Split mediaType CHR ''/'' in
    (if length parts \<noteq> 2
     then (respondWithError StatusBadRequest ''Invalid media type'' None, d, [])
     else
    (let extension = parts ! 1 in
    (case rand_Read env 32 of
       Inl err \<Rightarrow>
         (respondWithError StatusInternalServerError ''Couldn't generate random bytes''
            (Some err), d, [])
     | Inr randomBytes \<Rightarrow>
    (let name = EncodeToString RawURLEncoding randomBytes;
         fileName = name @ ''.'' @ extension;
         filePath = filepath_Join env (assetsRoot cfg) fileName
     in
    (case os_Create env filePath of
       Some err \<Rightarrow>
         (respondWithError StatusInternalServerError ''Couldn't create file'' (Some err), d, [])
     | None \<Rightarrow>
    emit [FileCreated filePath]
    (let (written, dropped_copy_error) = io_Copy env filePath data in
    emit [FileWritten filePath (take written data)]
    (let thumbnailURL = ''http://localhost:'' @ port cfg @ ''/assets/'' @ fileName;
         VideoMeta = VideoMeta\<lparr>ThumbnailURL := Some thumbnailURL\<rparr>
     in
    (case UpdateVideo env d VideoMeta of
       Inl err \<Rightarrow>
         (respondWithError StatusInternalServerError ''Couldn't update video'' (Some err), d, [])
     | Inr d' \<Rightarrow>
         (respondWithJSON StatusOK EmptyObject, d', [VideoUpdated VideoMeta])
    ))))))))))))))))))))"

text \<open>
  \<^verbatim>\<open>handlerUploadVideo\<close> (lines 146-285). Line 148 calls \<^verbatim>\<open>http.MaxBytesReader\<close> and
  drops the reader it returns; \<^verbatim>\<open>r.Body\<close> is not assigned. The result of
  \<^verbatim>\<open>tmpFile.Seek\<close> (line 216) is dropped as well. The two \<^verbatim>\<open>defer os.Remove\<close> run
  when the handler returns, the later one first. Closing the files has no effect the model
  records. Reading the form (line 183) may write temporary files.
\<close>

definition handlerUploadVideo :: "env \<Rightarrow> apiConfig \<Rightarrow> request \<Rightarrow> db \<Rightarrow> outcome" where
  "handlerUploadVideo env cfg r d =
    (let dropped_reader = MaxBytesReader (Body r) (2 ^ 30) in
    (case uuid_Parse env (PathValue r ''videoID'') of
       Inl err \<Rightarrow> (respondWithError StatusBadRequest ''Invalid ID'' (Some err), d, [])
     | Inr videoID \<Rightarrow>
    (case GetBearerToken env (Header r) of
       Inl err \<Rightarrow> (respondWithError StatusUnauthorized ''Couldn't find JWT'' (Some err), d, [])
     | Inr token \<Rightarrow>
    (case ValidateJWT env token (jwtSecret cfg) of
       Inl err \<Rightarrow>
         (respondWithError StatusUnauthorized ''Couldn't validate JWT'' (Some err), d, [])
     | Inr userID \<Rightarrow>
    (case GetVideo env d videoID of
       Inl err \<Rightarrow>
         (respondWithError StatusInternalServerError ''Couldn't get video'' (Some err), d, [])
     | Inr videoDb \<Rightarrow>
    (if UserID videoDb \<noteq> userID
     then (respondWithError StatusUnauthorized ''User does not own video'' None, d, [])
     else
    emit (FormFile_effects r ''video'')
    (case FormFile r ''video'' of
       Inl err \<Rightarrow>
         (respondWithError StatusBadRequest ''Unable to parse form file'' (Some err), d, [])
     | Inr header \<Rightarrow>
    (case ParseMediaType env (fh_ContentType header) of
       Inl err \<Rightarrow> (respondWithError StatusBadRequest ''Invalid media type'' (Some err), d, [])
     | Inr mediaType \<Rightarrow>
    (if mediaType \<noteq> ''video/mp4''
     then (respondWithError StatusBadRequest ''Invalid media type'' None, d, [])
     else
    (case os_CreateTemp env [] ''video.mp4'' of
       Inl err \<Rightarrow>
         (respondWithError StatusInternalServerError ''Couldn't create temp file'' (Some err),
          d, [])
     | Inr tmpFile_Name \<Rightarrow>
    emit [TempFileCreated tmpFile_Name]
    (deferred (FileRemoved tmpFile_Name)
    (let (written, copy_error) = io_Copy env tmpFile_Name (content header) in
    emit [FileWritten tmpFile_Name (take written (content header))]
    (case copy_error of
       Some err \<Rightarrow>
         (respondWithError StatusInternalServerError ''Couldn't save file'' (Some err), d, [])
     | None \<Rightarrow>
    (let (ratio, probe_events) = getVideoAspectRatio env tmpFile_Name in
    emit probe_events
    (case ratio of
       Inl err \<Rightarrow>
         (respondWithError StatusInternalServerError ''Couldn't get video aspect ratio''
            (Some err), d, [])
     | Inr aspectRation \<Rightarrow>
    (let prefix = choosePrefix aspectRation;
         (processed, remux_events) = processVideoForFastStart env tmpFile_Name
     in
    emit remux_events
    (case processed of
       Inl err \<Rightarrow>
         (respondWithError StatusInternalServerError ''Couldn't process video'' (Some err), d, [])
     | Inr processedFileName \<Rightarrow>
    deferred (FileRemoved processedFileName)
    (case os_OpenFile env processedFileName of
       Inl err \<Rightarrow>
         (respondWithError StatusInternalServerError ''Couldn't process video'' (Some err), d, [])
     | Inr processedFile \<Rightarrow>
    (case rand_Read env 32 of
       Inl err \<Rightarrow>
         (respondWithError StatusInternalServerError ''Couldn't generate random bytes''
            (Some err), d, [])
     | Inr randomBites \<Rightarrow>
    (let name = EncodeToString URLEncoding randomBites;
         fileName = prefix @ ''/'' @ name @ ''.mp4''
     in
    (case PutObject env (s3Bucket cfg) fileName mediaType processedFile of
       Some err \<Rightarrow>
         (respondWithError StatusInternalServerError ''Couldn't upload file to S3'' (Some err),
          d, [])
     | None \<Rightarrow>
    emit [ObjectPut (s3Bucket cfg) fileName mediaType processedFile]
    (let videoUrl = s3CfDistribution cfg @ ''/'' @ fileName;
         videoDb = videoDb\<lparr>VideoURL := Some videoUrl\<rparr>
     in
    (case UpdateVideo env d videoDb of
       Inl err \<Rightarrow>
         (respondWithError StatusInternalServerError ''Couldn't update video'' (Some err), d, [])
     | Inr d' \<Rightarrow>
         (respondWithJSON StatusOK (VideoBody videoDb), d', [VideoUpdated videoDb])
    )))))))))))))))))))))))"

abbreviation response_of :: "outcome \<Rightarrow> response" where
  "response_of out \<equiv> fst out"

abbreviation store_of :: "outcome \<Rightarrow> db" where
  "store_of out \<equiv> fst (snd out)"

abbreviation effects_of :: "outcome \<Rightarrow> event list" where
  "effects_of out \<equiv> snd (snd out)"

section \<open>Sample inputs\<close>

text \<open>
  An environment in which every outside call succeeds, a configuration, a store with one
  video owned by Alice, and an upload request for each handler. The theorems below are
  instantiated at these and at variations of them.
\<close>

definition alice :: uuid where
  "alice = ''a11ce000-0000-4000-8000-000000000001''"

definition bob :: uuid where
  "bob = ''b0b00000-0000-4000-8000-000000000002''"

definition video1 :: uuid where
  "video1 = ''71de0000-0000-4000-8000-000000000003''"

definition two_streams :: "json_stream list" where
  "two_streams =
     [\<lparr>js_width = Some 1920, js_height = Some 1080, js_display_aspect_ratio = Some ''16:9''\<rparr>,
      \<lparr>js_width = None, js_height = None, js_display_aspect_ratio = None\<rparr>]"

definition sample_env :: env where
  "sample_env =
     \<lparr>uuid_Parse = (\<lambda>s. if length s = 36 then Inr s else Inl (Error ''invalid UUID length'')),
      GetBearerToken =
        (\<lambda>h. case map_of h ''Authorization'' of
               None \<Rightarrow> Inl (Error ''no auth header included in request'')
             | Some v \<Rightarrow>
                 if take 7 v = ''Bearer '' then Inr (drop 7 v)
                 else Inl (Error ''malformed authorization header'')),
      ValidateJWT =
        (\<lambda>token secret.
           if token = ''token-of-alice'' then Inr alice
           else if token = ''token-of-bob'' then Inr bob
           else Inl (Error ''invalid token'')),
      ParseMediaType =
        (\<lambda>v. if v = [] then Inl (Error ''mime: no media type'')
             else Inr (takeWhile (\<lambda>c. c \<noteq> CHR '';'') v)),
      ReadAll_error = None,
      GetVideo_error = None,
      UpdateVideo_error = None,
      rand_stream = (\<lambda>i. of_nat (7 * i + 3)),
      rand_error = None,
      filepath_Join = (\<lambda>a b. a @ ''/'' @ b),
      os_Create = (\<lambda>path. None),
      io_Copy = (\<lambda>path data. (length data, None)),
      os_CreateTemp = (\<lambda>dir pattern. Inr (''/tmp/'' @ pattern @ ''1234'')),
      exec_Run = (\<lambda>name args. (Exited 0, ''{}'')),
      json_parse = (\<lambda>out. Inr two_streams),
      os_OpenFile = (\<lambda>path. Inr [0, 0, 0, 32]),
      PutObject = (\<lambda>bucket key contentType bytes. None)\<rparr>"

definition sample_cfg :: apiConfig where
  "sample_cfg =
     \<lparr>jwtSecret = ''secret'', assetsRoot = ''./assets'', port = ''8091'',
      s3Bucket = ''tubely'', s3CfDistribution = ''https://d111.cloudfront.net''\<rparr>"

definition sample_db :: db where
  "sample_db = [\<lparr>ID = video1, UserID = alice, ThumbnailURL = None, VideoURL = None\<rparr>]"

definition sample_request :: "string \<Rightarrow> string \<Rightarrow> form_file \<Rightarrow> request" where
  "sample_request token field file =
     \<lparr>PathValue = (\<lambda>name. if name = ''videoID'' then video1 else []),
      Header = [(''Authorization'', ''Bearer '' @ token)],
      Body = \<lparr>body_size = length (content file) + 256, body_limit = None\<rparr>,
      form_data = Some [(field, file)],
      ParseForm_error = None,
      MultipartForm = None\<rparr>"

definition png_file :: form_file where
  "png_file = \<lparr>Filename = ''cat.png'', fh_ContentType = ''image/png'',
                content = [137, 80, 78, 71, 13]\<rparr>"

definition text_file :: form_file where
  "text_file = \<lparr>Filename = ''notes.txt'', fh_ContentType = ''text/plain'',
                 content = [104, 105]\<rparr>"

definition mp4_file :: form_file where
  "mp4_file = \<lparr>Filename = ''clip.mp4'', fh_ContentType = ''video/mp4'',
                content = [0, 0, 0, 24]\<rparr>"

section \<open>Requests that differ in the file names only\<close>

text \<open>
  The request \<open>r\<close> with every uploaded file's client-supplied name \<open>n\<close> replaced by
  \<open>g n\<close>, and nothing else changed.
\<close>

definition rename_files :: "(string \<Rightarrow> string) \<Rightarrow> request \<Rightarrow> request" where
  "rename_files g r =
     r\<lparr>form_data :=
          map_option (map (\<lambda>(key, f). (key, f\<lparr>Filename := g (Filename f)\<rparr>))) (form_data r),
       MultipartForm :=
          map_option (map (\<lambda>(key, f). (key, f\<lparr>Filename := g (Filename f)\<rparr>)))
            (MultipartForm r)\<rparr>"

section \<open>The spec's form of the thumbnail URL\<close>


section \<open>More sample inputs\<close>

text \<open>A video upload whose file alone is one byte larger than 1 GiB.\<close>

definition oversized_request :: request where
  "oversized_request =
     sample_request ''token-of-alice'' ''video'' (mp4_file\<lparr>content := replicate (2 ^ 30 + 1) 0\<rparr>)"

text \<open>A video upload by the owner whose file is \<^verbatim>\<open>text/plain\<close> and one byte larger than
  the 32 MiB that \<^verbatim>\<open>FormFile\<close> keeps in memory.\<close>

definition large_text_request :: request where
  "large_text_request =
     sample_request ''token-of-alice'' ''video''
       (text_file\<lparr>content := replicate (32 * 2 ^ 20 + 1) 0\<rparr>)"

section \<open>Reading off a handler's outcome\<close>

lemma response_of_emit [simp]: "response_of (emit evs out) = response_of out"
  by (cases out) (simp add: emit_def)

lemma store_of_emit [simp]: "store_of (emit evs out) = store_of out"
  by (cases out) (simp add: emit_def)

lemma effects_of_emit [simp]: "effects_of (emit evs out) = evs @ effects_of out"
  by (cases out) (simp add: emit_def)

lemma response_of_deferred [simp]: "response_of (deferred ev out) = response_of out"
  by (cases out) (simp add: deferred_def)

lemma store_of_deferred [simp]: "store_of (deferred ev out) = store_of out"
  by (cases out) (simp add: deferred_def)

lemma effects_of_deferred [simp]: "effects_of (deferred ev out) = effects_of out @ [ev]"
  by (cases out) (simp add: deferred_def)

lemma status_respondWithError [simp]: "status (respondWithError code msg err) = code"
  by (simp add: respondWithError_def)

lemma status_respondWithJSON [simp]: "status (respondWithJSON code payload) = code"
  by (simp add: respondWithJSON_def)

lemma spilled_only: "e \<in> set (spilled budget files) \<Longrightarrow> \<exists>key. e = FormFileSpilled key"
  by (induction budget files rule: spilled.induct) (auto split: if_splits)

lemma ParseMultipartForm_effects_only:
  "e \<in> set (ParseMultipartForm_effects r n) \<Longrightarrow> \<exists>key. e = FormFileSpilled key"
  by (auto simp: ParseMultipartForm_effects_def dest: spilled_only
        split: option.splits sum.splits)

lemma FormFile_effects_only:
  "e \<in> set (FormFile_effects r key) \<Longrightarrow> \<exists>k. e = FormFileSpilled k"
  by (auto simp: FormFile_effects_def dest: ParseMultipartForm_effects_only
        split: option.splits)

lemma ParseMultipartForm_effects_other [simp]:
  "Printed \<notin> set (ParseMultipartForm_effects r n)"
  "FileCreated p \<notin> set (ParseMultipartForm_effects r n)"
  "FileWritten p bytes \<notin> set (ParseMultipartForm_effects r n)"
  "TempFileCreated p \<notin> set (ParseMultipartForm_effects r n)"
  "FileRemoved p \<notin> set (ParseMultipartForm_effects r n)"
  "CommandRun name args \<notin> set (ParseMultipartForm_effects r n)"
  "ObjectPut b k c x \<notin> set (ParseMultipartForm_effects r n)"
  "VideoUpdated v \<notin> set (ParseMultipartForm_effects r n)"
  using ParseMultipartForm_effects_only [of _ r n] by blast+

lemma FormFile_effects_other [simp]:
  "Printed \<notin> set (FormFile_effects r key)"
  "FileCreated p \<notin> set (FormFile_effects r key)"
  "FileWritten p bytes \<notin> set (FormFile_effects r key)"
  "TempFileCreated p \<notin> set (FormFile_effects r key)"
  "FileRemoved p \<notin> set (FormFile_effects r key)"
  "CommandRun name args \<notin> set (FormFile_effects r key)"
  "ObjectPut b k c x \<notin> set (FormFile_effects r key)"
  "VideoUpdated v \<notin> set (FormFile_effects r key)"
  using FormFile_effects_only [of _ r key] by blast+

section \<open>Properties of the sub-routines\<close>

text \<open>
  Claim C8. For every input path \<open>p\<close>, \<^verbatim>\<open>processVideoForFastStart\<close> runs \<^verbatim>\<open>ffmpeg\<close> with
  the output path \<open>p\<close> followed by the fixed suffix \<^verbatim>\<open>.processing\<close>; it returns that path
  exactly when the tool exits with status zero, it never returns another path, and when
  the tool exits with a status \<open>c\<close> it returns an error exactly when \<open>c\<close> is not zero.
\<close>

theorem fast_start_result:
  assumes "exec_Run env ''ffmpeg''
             [''-i'', p, ''-c'', ''copy'', ''-movflags'', ''faststart'', ''-f'', ''mp4'',
              p @ ''.processing''] = (oc, out)"
  shows "snd (processVideoForFastStart env p) =
           [CommandRun ''ffmpeg''
              [''-i'', p, ''-c'', ''copy'', ''-movflags'', ''faststart'', ''-f'', ''mp4'',
               p @ ''.processing'']]
       \<and> (fst (processVideoForFastStart env p) = Inr (p @ ''.processing'')) = (oc = Exited 0)
       \<and> (\<forall>q. fst (processVideoForFastStart env p) = Inr q \<longrightarrow> q = p @ ''.processing'')
       \<and> (\<forall>c. oc = Exited c \<longrightarrow> (\<exists>e. fst (processVideoForFastStart env p) = Inl e) = (c \<noteq> 0))"
proof -
  have eq: "processVideoForFastStart env p =
      (case Run_error oc of Some err \<Rightarrow> Inl err | None \<Rightarrow> Inr (p @ ''.processing''),
       [CommandRun ''ffmpeg''
              [''-i'', p, ''-c'', ''copy'', ''-movflags'', ''faststart'', ''-f'', ''mp4'',
               p @ ''.processing'']])"
    unfolding processVideoForFastStart_def Let_def assms by simp
  show ?thesis
    unfolding eq by (cases oc) (simp_all split: option.splits)
qed


theorem fast_start_result_witness:
  "fst (processVideoForFastStart sample_env ''/tmp/video.mp41234'') =
     Inr ''/tmp/video.mp41234.processing''
   \<and> (\<exists>e. fst (processVideoForFastStart (sample_env\<lparr>exec_Run := \<lambda>name args. (Exited 1, [])\<rparr>)
              ''/tmp/video.mp41234'') = Inl e)"
proof -
  have a: "exec_Run sample_env ''ffmpeg''
             [''-i'', ''/tmp/video.mp41234'', ''-c'', ''copy'', ''-movflags'', ''faststart'',
              ''-f'', ''mp4'', ''/tmp/video.mp41234'' @ ''.processing''] = (Exited 0, ''{}'')"
    by (simp add: sample_env_def)
  have b: "exec_Run (sample_env\<lparr>exec_Run := \<lambda>name args. (Exited 1, [])\<rparr>) ''ffmpeg''
             [''-i'', ''/tmp/video.mp41234'', ''-c'', ''copy'', ''-movflags'', ''faststart'',
              ''-f'', ''mp4'', ''/tmp/video.mp41234'' @ ''.processing''] = (Exited 1, [])"
    by simp
  have 1: "fst (processVideoForFastStart sample_env ''/tmp/video.mp41234'') =
     Inr ''/tmp/video.mp41234.processing''"
    using fast_start_result [OF a, THEN conjunct2, THEN conjunct1] by simp
  have 2: "\<exists>e. fst (processVideoForFastStart (sample_env\<lparr>exec_Run := \<lambda>name args. (Exited 1, [])\<rparr>)
              ''/tmp/video.mp41234'') = Inl e"
    using fast_start_result [OF b, THEN conjunct2, THEN conjunct2, THEN conjunct2, THEN spec, of 1]
    by simp
  from 1 2 show ?thesis by (rule conjI)
qed

lemma choosePrefix_cases:
  "choosePrefix ''16:9'' = ''landscape''"
  "choosePrefix ''9:16'' = ''portrait''"
  "a \<noteq> ''16:9'' \<Longrightarrow> a \<noteq> ''9:16'' \<Longrightarrow> choosePrefix a = ''other''"
  by (simp_all add: choosePrefix_def)

lemma probe_no_streams:
  assumes "exec_Run env ''ffprobe''
             [''-v'', ''error'', ''-print_format'', ''json'', ''-show_streams'', p] = (Exited 0, out)"
    and "json_parse env out = Inr []"
  shows "fst (getVideoAspectRatio env p) = Inl (Error ''No streams found'')"
  by (simp add: getVideoAspectRatio_def Let_def assms json_Unmarshal_def)

lemma probe_first_stream:
  assumes "exec_Run env ''ffprobe''
             [''-v'', ''error'', ''-print_format'', ''json'', ''-show_streams'', p] = (Exited 0, out)"
    and "json_parse env out = Inr (j # rest)"
  shows "fst (getVideoAspectRatio env p) = Inr (DisplayAspectRatio (decode_stream j))"
  by (simp add: getVideoAspectRatio_def Let_def assms json_Unmarshal_def)

lemma snd_getVideoAspectRatio [simp]:
  "snd (getVideoAspectRatio env p) =
     [CommandRun ''ffprobe'' [''-v'', ''error'', ''-print_format'', ''json'', ''-show_streams'', p]]"
  by (simp add: getVideoAspectRatio_def Let_def case_prod_beta)

lemma snd_processVideoForFastStart [simp]:
  "snd (processVideoForFastStart env p) =
     [CommandRun ''ffmpeg''
        [''-i'', p, ''-c'', ''copy'', ''-movflags'', ''faststart'', ''-f'', ''mp4'',
         p @ ''.processing'']]"
  by (simp add: processVideoForFastStart_def Let_def case_prod_beta)

lemma video_no_put_when_probe_fails:
  assumes "uuid_Parse env (PathValue r ''videoID'') = Inr videoID"
    and "GetBearerToken env (Header r) = Inr token"
    and "ValidateJWT env token (jwtSecret cfg) = Inr userID"
    and "GetVideo env d videoID = Inr videoDb"
    and "UserID videoDb = userID"
    and "FormFile r ''video'' = Inr header"
    and "ParseMediaType env (fh_ContentType header) = Inr ''video/mp4''"
    and "os_CreateTemp env [] ''video.mp4'' = Inr tmp"
    and "io_Copy env tmp (content header) = (written, None)"
    and "fst (getVideoAspectRatio env tmp) = Inl e"
  shows "status (response_of (handlerUploadVideo env cfg r d)) = StatusInternalServerError
       \<and> store_of (handlerUploadVideo env cfg r d) = d
       \<and> ObjectPut b k c x \<notin> set (effects_of (handlerUploadVideo env cfg r d))"
  by (simp add: handlerUploadVideo_def Let_def assms case_prod_beta)

lemma video_put_key:
  assumes "uuid_Parse env (PathValue r ''videoID'') = Inr videoID"
    and "GetBearerToken env (Header r) = Inr token"
    and "ValidateJWT env token (jwtSecret cfg) = Inr userID"
    and "GetVideo env d videoID = Inr videoDb"
    and "UserID videoDb = userID"
    and "FormFile r ''video'' = Inr header"
    and "ParseMediaType env (fh_ContentType header) = Inr ''video/mp4''"
    and "os_CreateTemp env [] ''video.mp4'' = Inr tmp"
    and "io_Copy env tmp (content header) = (written, None)"
    and "fst (getVideoAspectRatio env tmp) = Inr a"
  shows "ObjectPut b k c x \<in> set (effects_of (handlerUploadVideo env cfg r d)) \<longrightarrow>
           (\<exists>name. k = choosePrefix a @ ''/'' @ name @ ''.mp4'')"
  by (simp add: handlerUploadVideo_def Let_def assms case_prod_beta
           split: sum.splits option.splits)


section \<open>Facts about the sample inputs\<close>

lemma sample_uuid_Parse:
  "uuid_Parse sample_env (PathValue (sample_request token field file) ''videoID'') = Inr video1"
  by (simp add: sample_env_def sample_request_def video1_def)

lemma sample_GetBearerToken:
  "GetBearerToken sample_env (Header (sample_request token field file)) = Inr token"
  by (simp add: sample_env_def sample_request_def)

lemma sample_ValidateJWT:
  "ValidateJWT sample_env ''token-of-alice'' secret = Inr alice"
  "ValidateJWT sample_env ''token-of-bob'' secret = Inr bob"
  by (simp_all add: sample_env_def)

lemma sample_GetVideo:
  "GetVideo_error env = None \<Longrightarrow>
   GetVideo env sample_db video1 =
     Inr \<lparr>ID = video1, UserID = alice, ThumbnailURL = None, VideoURL = None\<rparr>"
  by (simp add: GetVideo_def sample_db_def)

lemma sample_FormFile: "FormFile (sample_request token field file) field = Inr file"
  by (simp add: FormFile_def ParseMultipartForm_def read_form_def too_large_def
        sample_request_def)

lemma sample_env_fields:
  "GetVideo_error sample_env = None"
  "UpdateVideo_error sample_env = None"
  "ReadAll_error sample_env = None"
  "rand_error sample_env = None"
  "os_CreateTemp sample_env [] ''video.mp4'' = Inr ''/tmp/video.mp41234''"
  "io_Copy sample_env path data = (length data, None)"
  "exec_Run sample_env name args = (Exited 0, ''{}'')"
  "json_parse sample_env out = Inr two_streams"
  "os_Create sample_env path = None"
  "filepath_Join sample_env a b = a @ ''/'' @ b"
  "os_OpenFile sample_env path = Inr [0, 0, 0, 32]"
  "PutObject sample_env bucket key ct bytes = None"
  by (simp_all add: sample_env_def)

lemma sample_ParseMediaType:
  "ParseMediaType sample_env ''video/mp4'' = Inr ''video/mp4''"
  "ParseMediaType sample_env ''image/png'' = Inr ''image/png''"
  "ParseMediaType sample_env ''text/plain'' = Inr ''text/plain''"
  by (simp_all add: sample_env_def)

lemma sample_files:
  "fh_ContentType mp4_file = ''video/mp4''"
  "fh_ContentType png_file = ''image/png''"
  "fh_ContentType text_file = ''text/plain''"
  by (simp_all add: mp4_file_def png_file_def text_file_def)

lemma sample_no_spill:
  "length (content file) \<le> n \<Longrightarrow>
   ParseMultipartForm_effects (sample_request token field file) n = []"
  "length (content file) \<le> defaultMaxMemory \<Longrightarrow>
   FormFile_effects (sample_request token field file) key = []"
  "FormFile_effects (fst (ParseMultipartForm (sample_request token field file) n)) key = []"
  by (simp_all add: FormFile_effects_def ParseMultipartForm_effects_def ParseMultipartForm_def
        read_form_def too_large_def sample_request_def)

lemma sample_sizes:
  "length (content png_file) = 5"
  "length (content text_file) = 2"
  "length (content mp4_file) = 4"
  "defaultMaxMemory = 33554432"
  by (simp_all add: png_file_def text_file_def mp4_file_def defaultMaxMemory_def)

section \<open>The video upload\<close>


lemma video_uploads:
  assumes "uuid_Parse env (PathValue r ''videoID'') = Inr videoID"
    and "GetBearerToken env (Header r) = Inr token"
    and "ValidateJWT env token (jwtSecret cfg) = Inr userID"
    and "GetVideo env d videoID = Inr videoDb"
    and "UserID videoDb = userID"
    and "FormFile r ''video'' = Inr header"
    and "ParseMediaType env (fh_ContentType header) = Inr ''video/mp4''"
    and "os_CreateTemp env [] ''video.mp4'' = Inr tmp"
    and "io_Copy env tmp (content header) = (written, None)"
    and "fst (getVideoAspectRatio env tmp) = Inr a"
    and "exec_Run env ''ffmpeg''
           [''-i'', tmp, ''-c'', ''copy'', ''-movflags'', ''faststart'', ''-f'', ''mp4'',
            tmp @ ''.processing''] = (Exited 0, out2)"
    and "os_OpenFile env (tmp @ ''.processing'') = Inr processedFile"
    and "rand_error env = None"
    and "PutObject env (s3Bucket cfg)
           (choosePrefix a @ ''/'' @
            EncodeToString URLEncoding (map (rand_stream env) [0..<32]) @ ''.mp4'')
           ''video/mp4'' processedFile = None"
    and "UpdateVideo_error env = None"
  shows "ObjectPut (s3Bucket cfg)
           (choosePrefix a @ ''/'' @
            EncodeToString URLEncoding (map (rand_stream env) [0..<32]) @ ''.mp4'')
           ''video/mp4'' processedFile
         \<in> set (effects_of (handlerUploadVideo env cfg r d))
       \<and> response_of (handlerUploadVideo env cfg r d) =
           respondWithJSON StatusOK (VideoBody (videoDb\<lparr>VideoURL :=
             Some (s3CfDistribution cfg @ ''/'' @ choosePrefix a @ ''/'' @
                   EncodeToString URLEncoding (map (rand_stream env) [0..<32]) @
                   ''.mp4'')\<rparr>))"
  using assms(14)
  by (simp add: handlerUploadVideo_def Let_def case_prod_beta assms(1-13) assms(15)
        processVideoForFastStart_def rand_Read_def UpdateVideo_def)

text \<open>
  Claim C1. Take a video upload that reaches the probe (the identifier parses, the token
  is valid, the user owns the record, the form file is \<^verbatim>\<open>video/mp4\<close> and is copied to
  the temporary file) and whose probe prints a document with the streams \<open>js\<close>. When
  \<open>js\<close> has a first stream, the sub-routine returns its display aspect ratio; the
  storage prefix is \<^verbatim>\<open>landscape\<close> for \<^verbatim>\<open>16:9\<close>, \<^verbatim>\<open>portrait\<close> for \<^verbatim>\<open>9:16\<close> and
  \<^verbatim>\<open>other\<close> for any other value: every object the handler uploads has a key under that
  prefix, and when the remaining steps succeed (the remux exits with status 0, the
  processed file opens, the random source and the object store and the metadata store do
  not fail) the handler does upload the object under that prefix and answers 200 with the
  video URL under that prefix. When \<open>js\<close> is empty, the sub-routine fails, the handler
  answers 500, uploads nothing and leaves the store as it was: no default prefix is used.
\<close>

theorem aspect_ratio_classification:
  assumes "uuid_Parse env (PathValue r ''videoID'') = Inr videoID"
    and "GetBearerToken env (Header r) = Inr token"
    and "ValidateJWT env token (jwtSecret cfg) = Inr userID"
    and "GetVideo env d videoID = Inr videoDb"
    and "UserID videoDb = userID"
    and "FormFile r ''video'' = Inr header"
    and "ParseMediaType env (fh_ContentType header) = Inr ''video/mp4''"
    and "os_CreateTemp env [] ''video.mp4'' = Inr tmp"
    and "io_Copy env tmp (content header) = (written, None)"
    and "exec_Run env ''ffprobe''
           [''-v'', ''error'', ''-print_format'', ''json'', ''-show_streams'', tmp] =
         (Exited 0, out)"
    and "json_parse env out = Inr js"
  shows "(\<forall>j rest. js = j # rest \<longrightarrow>
            fst (getVideoAspectRatio env tmp) = Inr (DisplayAspectRatio (decode_stream j)) \<and>
            (\<forall>b k c x. ObjectPut b k c x \<in> set (effects_of (handlerUploadVideo env cfg r d)) \<longrightarrow>
               (\<exists>name. k =
                  (if DisplayAspectRatio (decode_stream j) = ''16:9'' then ''landscape''
                   else if DisplayAspectRatio (decode_stream j) = ''9:16'' then ''portrait''
                   else ''other'') @ ''/'' @ name @ ''.mp4'')) \<and>
            (\<forall>out2 processedFile.
               exec_Run env ''ffmpeg''
                 [''-i'', tmp, ''-c'', ''copy'', ''-movflags'', ''faststart'', ''-f'', ''mp4'',
                   tmp @ ''.processing''] = (Exited 0, out2) \<and>
               os_OpenFile env (tmp @ ''.processing'') = Inr processedFile \<and>
               rand_error env = None \<and>
               PutObject env (s3Bucket cfg)
                 ((if DisplayAspectRatio (decode_stream j) = ''16:9'' then ''landscape''
                   else if DisplayAspectRatio (decode_stream j) = ''9:16'' then ''portrait''
                   else ''other'') @ ''/'' @
                  EncodeToString URLEncoding (map (rand_stream env) [0..<32]) @ ''.mp4'')
                 ''video/mp4'' processedFile = None \<and>
               UpdateVideo_error env = None \<longrightarrow>
               ObjectPut (s3Bucket cfg)
                 ((if DisplayAspectRatio (decode_stream j) = ''16:9'' then ''landscape''
                   else if DisplayAspectRatio (decode_stream j) = ''9:16'' then ''portrait''
                   else ''other'') @ ''/'' @
                  EncodeToString URLEncoding (map (rand_stream env) [0..<32]) @ ''.mp4'')
                 ''video/mp4'' processedFile
               \<in> set (effects_of (handlerUploadVideo env cfg r d)) \<and>
               response_of (handlerUploadVideo env cfg r d) =
                 respondWithJSON StatusOK (VideoBody (videoDb\<lparr>VideoURL :=
                   Some (s3CfDistribution cfg @ ''/'' @
                         (if DisplayAspectRatio (decode_stream j) = ''16:9'' then ''landscape''
                   else if DisplayAspectRatio (decode_stream j) = ''9:16'' then ''portrait''
                   else ''other'') @ ''/'' @
                         EncodeToString URLEncoding (map (rand_stream env) [0..<32]) @ ''.mp4'')\<rparr>))))
       \<and> (js = [] \<longrightarrow>
            fst (getVideoAspectRatio env tmp) = Inl (Error ''No streams found'') \<and>
            status (response_of (handlerUploadVideo env cfg r d)) = StatusInternalServerError \<and>
            store_of (handlerUploadVideo env cfg r d) = d \<and>
            (\<forall>b k c x. ObjectPut b k c x \<notin> set (effects_of (handlerUploadVideo env cfg r d))))"
proof (intro conjI allI impI)
  fix j rest
  assume js: "js = j # rest"
  show first: "fst (getVideoAspectRatio env tmp) = Inr (DisplayAspectRatio (decode_stream j))"
    using assms(10) assms(11) [unfolded js] by (rule probe_first_stream)
  {
    fix b k c x
    assume "ObjectPut b k c x \<in> set (effects_of (handlerUploadVideo env cfg r d))"
    with video_put_key [OF assms(1-9) first]
    have "\<exists>name. k = choosePrefix (DisplayAspectRatio (decode_stream j)) @ ''/'' @ name @ ''.mp4''"
      by (rule mp)
    then show "\<exists>name. k =
                  (if DisplayAspectRatio (decode_stream j) = ''16:9'' then ''landscape''
                   else if DisplayAspectRatio (decode_stream j) = ''9:16'' then ''portrait''
                   else ''other'') @ ''/'' @ name @ ''.mp4''"
      by (simp add: choosePrefix_def)
  }
  {
    fix out2 processedFile
    assume later: "exec_Run env ''ffmpeg''
                 [''-i'', tmp, ''-c'', ''copy'', ''-movflags'', ''faststart'', ''-f'', ''mp4'',
                   tmp @ ''.processing''] = (Exited 0, out2) \<and>
               os_OpenFile env (tmp @ ''.processing'') = Inr processedFile \<and>
               rand_error env = None \<and>
               PutObject env (s3Bucket cfg)
                 ((if DisplayAspectRatio (decode_stream j) = ''16:9'' then ''landscape''
                   else if DisplayAspectRatio (decode_stream j) = ''9:16'' then ''portrait''
                   else ''other'') @ ''/'' @
                  EncodeToString URLEncoding (map (rand_stream env) [0..<32]) @ ''.mp4'')
                 ''video/mp4'' processedFile = None \<and>
               UpdateVideo_error env = None"
    from later have remux: "exec_Run env ''ffmpeg''
                 [''-i'', tmp, ''-c'', ''copy'', ''-movflags'', ''faststart'', ''-f'', ''mp4'',
                   tmp @ ''.processing''] = (Exited 0, out2)"
      by (rule conjunct1)
    from later have opened: "os_OpenFile env (tmp @ ''.processing'') = Inr processedFile"
      by simp
    from later have random: "rand_error env = None"
      by simp
    from later have put: "PutObject env (s3Bucket cfg)
           (choosePrefix (DisplayAspectRatio (decode_stream j)) @ ''/'' @
            EncodeToString URLEncoding (map (rand_stream env) [0..<32]) @ ''.mp4'')
           ''video/mp4'' processedFile = None"
      by (simp add: choosePrefix_def)
    from later have update: "UpdateVideo_error env = None"
      by simp
    note up = video_uploads [OF assms(1-9) first remux opened random put update]
    from up [THEN conjunct1]
    show "ObjectPut (s3Bucket cfg)
                 ((if DisplayAspectRatio (decode_stream j) = ''16:9'' then ''landscape''
                   else if DisplayAspectRatio (decode_stream j) = ''9:16'' then ''portrait''
                   else ''other'') @ ''/'' @
                  EncodeToString URLEncoding (map (rand_stream env) [0..<32]) @ ''.mp4'')
                 ''video/mp4'' processedFile
               \<in> set (effects_of (handlerUploadVideo env cfg r d))"
      by (simp add: choosePrefix_def)
    from up [THEN conjunct2]
    show "response_of (handlerUploadVideo env cfg r d) =
                 respondWithJSON StatusOK (VideoBody (videoDb\<lparr>VideoURL :=
                   Some (s3CfDistribution cfg @ ''/'' @
                         (if DisplayAspectRatio (decode_stream j) = ''16:9'' then ''landscape''
                   else if DisplayAspectRatio (decode_stream j) = ''9:16'' then ''portrait''
                   else ''other'') @ ''/'' @
                         EncodeToString URLEncoding (map (rand_stream env) [0..<32]) @ ''.mp4'')\<rparr>))"
      by (simp add: choosePrefix_def)
  }
next
  assume js: "js = []"
  show none: "fst (getVideoAspectRatio env tmp) = Inl (Error ''No streams found'')"
    using assms(10) assms(11) [unfolded js] by (rule probe_no_streams)
  note fails = video_no_put_when_probe_fails [OF assms(1-9) none]
  show "status (response_of (handlerUploadVideo env cfg r d)) = StatusInternalServerError"
    using fails by (rule conjunct1)
  show "store_of (handlerUploadVideo env cfg r d) = d"
    using fails [THEN conjunct2] by (rule conjunct1)
  fix b k c x
  show "ObjectPut b k c x \<notin> set (effects_of (handlerUploadVideo env cfg r d))"
    using video_no_put_when_probe_fails [OF assms(1-9) none, THEN conjunct2] by (rule conjunct2)
qed

theorem aspect_ratio_classification_witness:
  "fst (getVideoAspectRatio sample_env ''/tmp/video.mp41234'') = Inr ''16:9''
   \<and> ObjectPut ''tubely''
         (''landscape/'' @ EncodeToString URLEncoding (map (rand_stream sample_env) [0..<32]) @
          ''.mp4'')
         ''video/mp4'' [0, 0, 0, 32]
       \<in> set (effects_of (handlerUploadVideo sample_env sample_cfg
                  (sample_request ''token-of-alice'' ''video'' mp4_file) sample_db))
   \<and> response_of (handlerUploadVideo sample_env sample_cfg
         (sample_request ''token-of-alice'' ''video'' mp4_file) sample_db) =
       respondWithJSON StatusOK (VideoBody
         \<lparr>ID = video1, UserID = alice, ThumbnailURL = None,
            VideoURL = Some (''https://d111.cloudfront.net/landscape/'' @
              EncodeToString URLEncoding (map (rand_stream sample_env) [0..<32]) @ ''.mp4'')\<rparr>)
   \<and> status (response_of (handlerUploadVideo (sample_env\<lparr>json_parse := \<lambda>out. Inr []\<rparr>) sample_cfg
          (sample_request ''token-of-alice'' ''video'' mp4_file) sample_db)) =
       StatusInternalServerError"
proof -
  let ?r = "sample_request ''token-of-alice'' ''video'' mp4_file"
  let ?v = "\<lparr>ID = video1, UserID = alice, ThumbnailURL = None, VideoURL = None\<rparr>"
  let ?tmp = "''/tmp/video.mp41234''"
  let ?e = "sample_env\<lparr>json_parse := \<lambda>out. Inr []\<rparr>"
  let ?j = "\<lparr>js_width = Some 1920, js_height = Some 1080,
              js_display_aspect_ratio = Some ''16:9''\<rparr>"
  have owner: "UserID ?v = alice" by simp
  have declared: "ParseMediaType sample_env (fh_ContentType mp4_file) = Inr ''video/mp4''"
    by (simp add: sample_files sample_ParseMediaType)
  have streams: "two_streams =
      ?j # [\<lparr>js_width = None, js_height = None, js_display_aspect_ratio = None\<rparr>]"
    by (simp add: two_streams_def)
  note first = aspect_ratio_classification
      [where env = sample_env and r = ?r and cfg = sample_cfg and d = sample_db
         and videoDb = ?v and token = "''token-of-alice''" and js = two_streams,
       OF sample_uuid_Parse sample_GetBearerToken sample_ValidateJWT(1)
          sample_GetVideo [OF sample_env_fields(1)] owner sample_FormFile declared
          sample_env_fields(5) sample_env_fields(6) sample_env_fields(7) sample_env_fields(8),
       THEN conjunct1, THEN spec, THEN spec, THEN mp, OF streams]
  have 1: "fst (getVideoAspectRatio sample_env ?tmp) = Inr ''16:9''"
    using first [THEN conjunct1] by (simp add: decode_stream_def)
  have produced: "ObjectPut ''tubely''
         (''landscape/'' @ EncodeToString URLEncoding (map (rand_stream sample_env) [0..<32]) @
          ''.mp4'')
         ''video/mp4'' [0, 0, 0, 32]
       \<in> set (effects_of (handlerUploadVideo sample_env sample_cfg ?r sample_db))
     \<and> response_of (handlerUploadVideo sample_env sample_cfg ?r sample_db) =
       respondWithJSON StatusOK (VideoBody
         \<lparr>ID = video1, UserID = alice, ThumbnailURL = None,
            VideoURL = Some (''https://d111.cloudfront.net/landscape/'' @
              EncodeToString URLEncoding (map (rand_stream sample_env) [0..<32]) @ ''.mp4'')\<rparr>)"
    using first [THEN conjunct2, THEN conjunct2, THEN spec [where x = "''{}''"],
                 THEN spec [where x = "[0, 0, 0, 32] :: byte list"]]
    by (simp add: decode_stream_def sample_env_fields sample_cfg_def)
  have 2: "status (response_of (handlerUploadVideo ?e sample_cfg ?r sample_db)) =
      StatusInternalServerError"
    using aspect_ratio_classification
      [where env = ?e and r = ?r and cfg = sample_cfg and d = sample_db and videoDb = ?v
         and token = "''token-of-alice''" and js = "[]" and videoID = video1
         and header = mp4_file and tmp = ?tmp and written = "length (content mp4_file)"
         and out = "''{}''",
       THEN conjunct2, THEN mp, OF _ _ _ _ owner sample_FormFile _ _ _ _ _ refl,
       THEN conjunct2, THEN conjunct1]
    by (simp add: sample_files sample_ParseMediaType sample_uuid_Parse sample_GetBearerToken
          sample_ValidateJWT sample_GetVideo sample_env_fields)
  from 1 produced 2 show ?thesis by simp
qed









lemma spilled_fits:
  "sum_list (map (\<lambda>(key, f). length (content f)) files) \<le> budget \<Longrightarrow>
   spilled budget files = []"
  by (induction budget files rule: spilled.induct) auto

lemma FormFile_effects_fits:
  assumes "form_data r = Some files"
    and "sum_list (map (\<lambda>(key, f). length (content f)) files) \<le> defaultMaxMemory"
  shows "FormFile_effects r key = []"
  using assms
  by (simp add: FormFile_effects_def ParseMultipartForm_effects_def read_form_def spilled_fits
        split: option.splits)

lemma video_wrong_content_type_effects:
  assumes "FormFile r ''video'' = Inr header"
    and "ParseMediaType env (fh_ContentType header) \<noteq> Inr ''video/mp4''"
  shows "effects_of (handlerUploadVideo env cfg r d) = [] \<or> effects_of (handlerUploadVideo env cfg r d) = FormFile_effects r ''video''"
  using assms(2)
  by (simp add: handlerUploadVideo_def Let_def assms(1) split: sum.splits)

text \<open>
  Claim C5, as amended. For every request to the video upload handler whose form file
  declares a content type that does not parse to \<^verbatim>\<open>video/mp4\<close>: the handler does not
  answer with success and leaves the store as it was; it does not create its own
  temporary file, and it copies, probes, converts and uploads nothing. Its only effects
  are the temporary files net/http itself writes while the handler reads the form (line
  183), for file parts beyond the memory budget of 32 MiB; there are none when the file
  parts of the form fit that budget. When the identifier, the token, the record lookup
  and the ownership check pass, the handler reads the form and answers 400.
\<close>

theorem video_wrong_content_type:
  assumes "FormFile r ''video'' = Inr header"
    and "ParseMediaType env (fh_ContentType header) \<noteq> Inr ''video/mp4''"
  shows "(\<forall>e. e \<in> set (effects_of (handlerUploadVideo env cfg r d)) \<longrightarrow> (\<exists>key. e = FormFileSpilled key))
       \<and> (\<forall>p. TempFileCreated p \<notin> set (effects_of (handlerUploadVideo env cfg r d)))
       \<and> (\<forall>files. form_data r = Some files \<and>
             sum_list (map (\<lambda>(key, f). length (content f)) files) \<le> defaultMaxMemory \<longrightarrow>
             effects_of (handlerUploadVideo env cfg r d) = [])
       \<and> status (response_of (handlerUploadVideo env cfg r d)) \<noteq> StatusOK
       \<and> store_of (handlerUploadVideo env cfg r d) = d
       \<and> (\<forall>videoID token userID videoDb.
             uuid_Parse env (PathValue r ''videoID'') = Inr videoID \<and>
             GetBearerToken env (Header r) = Inr token \<and>
             ValidateJWT env token (jwtSecret cfg) = Inr userID \<and>
             GetVideo env d videoID = Inr videoDb \<and>
             UserID videoDb = userID \<longrightarrow>
             status (response_of (handlerUploadVideo env cfg r d)) = StatusBadRequest \<and>
             effects_of (handlerUploadVideo env cfg r d) = FormFile_effects r ''video'')"
proof -
  note either = video_wrong_content_type_effects [OF assms, of cfg d]
  have only: "\<forall>e. e \<in> set (effects_of (handlerUploadVideo env cfg r d)) \<longrightarrow> (\<exists>key. e = FormFileSpilled key)"
  proof (intro allI impI)
    fix e
    assume e: "e \<in> set (effects_of (handlerUploadVideo env cfg r d))"
    from either show "\<exists>key. e = FormFileSpilled key"
    proof
      assume "effects_of (handlerUploadVideo env cfg r d) = []"
      with e show ?thesis by simp
    next
      assume "effects_of (handlerUploadVideo env cfg r d) = FormFile_effects r ''video''"
      with e have "e \<in> set (FormFile_effects r ''video'')" by simp
      then show ?thesis by (rule FormFile_effects_only)
    qed
  qed
  have no_temp: "\<forall>p. TempFileCreated p \<notin> set (effects_of (handlerUploadVideo env cfg r d))"
  proof (intro allI notI)
    fix p
    assume "TempFileCreated p \<in> set (effects_of (handlerUploadVideo env cfg r d))"
    with only have "\<exists>key. TempFileCreated p = FormFileSpilled key" by blast
    then show False by simp
  qed
  have fits: "\<forall>files. form_data r = Some files \<and>
             sum_list (map (\<lambda>(key, f). length (content f)) files) \<le> defaultMaxMemory \<longrightarrow>
             effects_of (handlerUploadVideo env cfg r d) = []"
  proof (intro allI impI)
    fix files
    assume "form_data r = Some files \<and>
             sum_list (map (\<lambda>(key, f). length (content f)) files) \<le> defaultMaxMemory"
    then have "FormFile_effects r ''video'' = []"
      using FormFile_effects_fits [of r files "''video''"] by simp
    with either show "effects_of (handlerUploadVideo env cfg r d) = []" by auto
  qed
  have not_ok: "status (response_of (handlerUploadVideo env cfg r d)) \<noteq> StatusOK"
    using assms(2)
    by (simp add: handlerUploadVideo_def Let_def assms(1) StatusOK_def StatusBadRequest_def
          StatusUnauthorized_def StatusInternalServerError_def split: sum.splits)
  have same: "store_of (handlerUploadVideo env cfg r d) = d"
    using assms(2)
    by (simp add: handlerUploadVideo_def Let_def assms(1) split: sum.splits)
  have bad: "\<forall>videoID token userID videoDb.
             uuid_Parse env (PathValue r ''videoID'') = Inr videoID \<and>
             GetBearerToken env (Header r) = Inr token \<and>
             ValidateJWT env token (jwtSecret cfg) = Inr userID \<and>
             GetVideo env d videoID = Inr videoDb \<and>
             UserID videoDb = userID \<longrightarrow>
             status (response_of (handlerUploadVideo env cfg r d)) = StatusBadRequest \<and>
             effects_of (handlerUploadVideo env cfg r d) = FormFile_effects r ''video''"
    using assms(2)
    by (simp add: handlerUploadVideo_def Let_def assms(1) split: sum.splits)
  from only no_temp fits not_ok same bad show ?thesis by (intro conjI)
qed

theorem video_wrong_content_type_witness:
  "effects_of (handlerUploadVideo sample_env sample_cfg
      (sample_request ''token-of-alice'' ''video'' text_file) sample_db) = []
   \<and> status (response_of (handlerUploadVideo sample_env sample_cfg
      (sample_request ''token-of-alice'' ''video'' text_file) sample_db)) = StatusBadRequest"
proof -
  let ?r = "sample_request ''token-of-alice'' ''video'' text_file"
  let ?v = "\<lparr>ID = video1, UserID = alice, ThumbnailURL = None, VideoURL = None\<rparr>"
  have declared: "ParseMediaType sample_env (fh_ContentType text_file) \<noteq> Inr ''video/mp4''"
    by (simp add: sample_files sample_ParseMediaType)
  note all = video_wrong_content_type
    [where env = sample_env and cfg = sample_cfg and d = sample_db, OF sample_FormFile declared]
  have small: "form_data ?r = Some [(''video'', text_file)] \<and>
      sum_list (map (\<lambda>(key, f). length (content f)) [(''video'', text_file)]) \<le>
        defaultMaxMemory"
    by (simp add: sample_request_def sample_sizes)
  have none: "effects_of (handlerUploadVideo sample_env sample_cfg ?r sample_db) = []"
    using all [THEN conjunct2, THEN conjunct2, THEN conjunct1, THEN spec, THEN mp, OF small] .
  have steps: "uuid_Parse sample_env (PathValue ?r ''videoID'') = Inr video1 \<and>
      GetBearerToken sample_env (Header ?r) = Inr ''token-of-alice'' \<and>
      ValidateJWT sample_env ''token-of-alice'' (jwtSecret sample_cfg) = Inr alice \<and>
      GetVideo sample_env sample_db video1 = Inr ?v \<and>
      UserID ?v = alice"
    by (simp add: sample_uuid_Parse sample_GetBearerToken sample_ValidateJWT sample_GetVideo
          sample_env_fields)
  have bad: "status (response_of (handlerUploadVideo sample_env sample_cfg ?r sample_db)) =
      StatusBadRequest"
    using all [THEN conjunct2, THEN conjunct2, THEN conjunct2, THEN conjunct2, THEN conjunct2,
               THEN spec, THEN spec, THEN spec, THEN spec, THEN mp, OF steps, THEN conjunct1] .
  from none bad show ?thesis by (rule conjI)
qed

text \<open>
  Claim C5 as stated promises 400, and that no temporary file exists by then, for every
  such request. The checks that come first in the handler answer first: Bob, who does not
  own the video, uploads a \<^verbatim>\<open>text/plain\<close> file and gets 401. And reading the form comes
  before the content-type check: when the owner uploads a \<^verbatim>\<open>text/plain\<close> file of
  32 MiB and one byte, the file part is written to a temporary file before the handler
  answers 400.
\<close>

theorem video_wrong_content_type_counterexample:
  "FormFile (sample_request ''token-of-bob'' ''video'' text_file) ''video'' = Inr text_file
   \<and> ParseMediaType sample_env (fh_ContentType text_file) = Inr ''text/plain''
   \<and> status (response_of (handlerUploadVideo sample_env sample_cfg
         (sample_request ''token-of-bob'' ''video'' text_file) sample_db)) = StatusUnauthorized
   \<and> StatusUnauthorized \<noteq> StatusBadRequest
   \<and> FormFile large_text_request ''video'' =
         Inr (text_file\<lparr>content := replicate (32 * 2 ^ 20 + 1) 0\<rparr>)
   \<and> ParseMediaType sample_env
         (fh_ContentType (text_file\<lparr>content := replicate (32 * 2 ^ 20 + 1) 0\<rparr>)) =
       Inr ''text/plain''
   \<and> effects_of (handlerUploadVideo sample_env sample_cfg large_text_request sample_db) =
       [FormFileSpilled ''video'']
   \<and> status (response_of
         (handlerUploadVideo sample_env sample_cfg large_text_request sample_db)) =
       StatusBadRequest"
proof -
  have bob: "FormFile (sample_request ''token-of-bob'' ''video'' text_file) ''video'' =
        Inr text_file
   \<and> ParseMediaType sample_env (fh_ContentType text_file) = Inr ''text/plain''
   \<and> status (response_of (handlerUploadVideo sample_env sample_cfg
         (sample_request ''token-of-bob'' ''video'' text_file) sample_db)) = StatusUnauthorized
   \<and> StatusUnauthorized \<noteq> StatusBadRequest"
    by (simp add: sample_FormFile sample_files sample_ParseMediaType handlerUploadVideo_def
          Let_def sample_uuid_Parse sample_GetBearerToken sample_ValidateJWT sample_GetVideo
          sample_env_fields alice_def bob_def StatusUnauthorized_def StatusBadRequest_def)
  have spill: "FormFile_effects large_text_request ''video'' = [FormFileSpilled ''video'']"
    by (simp add: large_text_request_def sample_request_def FormFile_effects_def
          ParseMultipartForm_effects_def read_form_def too_large_def defaultMaxMemory_def)
  have large: "FormFile large_text_request ''video'' =
         Inr (text_file\<lparr>content := replicate (32 * 2 ^ 20 + 1) 0\<rparr>)
   \<and> ParseMediaType sample_env
         (fh_ContentType (text_file\<lparr>content := replicate (32 * 2 ^ 20 + 1) 0\<rparr>)) =
       Inr ''text/plain''"
    by (simp add: large_text_request_def sample_FormFile sample_files sample_ParseMediaType)
  have run: "effects_of (handlerUploadVideo sample_env sample_cfg large_text_request sample_db) =
       FormFile_effects large_text_request ''video''
   \<and> status (response_of
         (handlerUploadVideo sample_env sample_cfg large_text_request sample_db)) =
       StatusBadRequest"
    unfolding large_text_request_def
    by (simp add: handlerUploadVideo_def Let_def sample_uuid_Parse sample_GetBearerToken
          sample_ValidateJWT sample_GetVideo sample_env_fields sample_FormFile sample_files
          sample_ParseMediaType)
  from bob large run spill show ?thesis by simp
qed

text \<open>
  Claim C2. The claim says that a body larger than 1 GiB cannot be read by any step of
  the video upload. The handler drops the reader \<^verbatim>\<open>http.MaxBytesReader\<close> returns, so the
  request keeps its uncapped body: for a request whose body holds a video of
  \<open>2 ^ 30 + 1\<close> bytes, reading the form through the capped reader would fail, but the
  handler reads the form, copies all \<open>2 ^ 30 + 1\<close> bytes to the temporary file and
  answers 200.
\<close>

theorem oversized_body_is_read:
  "2 ^ 30 < body_size (Body oversized_request)
   \<and> FormFile (oversized_request\<lparr>Body := MaxBytesReader (Body oversized_request) (2 ^ 30)\<rparr>)
         ''video'' = Inl (Error ''http: request body too large'')
   \<and> status (response_of
         (handlerUploadVideo sample_env sample_cfg oversized_request sample_db)) = StatusOK
   \<and> FileWritten ''/tmp/video.mp41234'' (replicate (2 ^ 30 + 1) 0)
       \<in> set (effects_of (handlerUploadVideo sample_env sample_cfg oversized_request sample_db))"
proof -
  have size: "2 ^ 30 < body_size (Body oversized_request)"
    by (simp add: oversized_request_def sample_request_def)
  have capped: "FormFile (oversized_request\<lparr>Body := MaxBytesReader (Body oversized_request) (2 ^ 30)\<rparr>)
         ''video'' = Inl (Error ''http: request body too large'')"
    by (simp add: oversized_request_def sample_request_def FormFile_def ParseMultipartForm_def
          read_form_def too_large_def MaxBytesReader_def)
  have run: "status (response_of
         (handlerUploadVideo sample_env sample_cfg oversized_request sample_db)) = StatusOK
    \<and> FileWritten ''/tmp/video.mp41234'' (replicate (2 ^ 30 + 1) 0)
       \<in> set (effects_of (handlerUploadVideo sample_env sample_cfg oversized_request sample_db))"
    unfolding oversized_request_def
    apply (simp add: handlerUploadVideo_def Let_def case_prod_beta sample_uuid_Parse
        sample_GetBearerToken sample_ValidateJWT sample_GetVideo sample_env_fields
        sample_FormFile sample_files sample_ParseMediaType
        getVideoAspectRatio_def processVideoForFastStart_def json_Unmarshal_def
        two_streams_def decode_stream_def choosePrefix_def rand_Read_def)
    apply (simp add: Let_def UpdateVideo_def sample_env_fields)
    done
  from size capped run show ?thesis by simp
qed

section \<open>The thumbnail upload\<close>






lemma sample_FormFile_parsed:
  "FormFile (fst (ParseMultipartForm (sample_request token field file) n)) field = Inr file"
  by (simp add: FormFile_def ParseMultipartForm_def read_form_def too_large_def
        sample_request_def)

lemma sample_thumbnail_outcome:
  "handlerUploadThumbnail (sample_env\<lparr>io_Copy := c\<rparr>) sample_cfg
     (sample_request ''token-of-alice'' ''thumbnail'' png_file) sample_db =
   (respondWithJSON StatusOK EmptyObject,
    [\<lparr>ID = video1, UserID = alice,
       ThumbnailURL = Some (''http://localhost:8091/assets/'' @
         EncodeToString RawURLEncoding (map (rand_stream sample_env) [0..<32]) @ ''.png''),
       VideoURL = None\<rparr>],
    [Printed,
     FileCreated (''./assets/'' @
         EncodeToString RawURLEncoding (map (rand_stream sample_env) [0..<32]) @ ''.png''),
     FileWritten (''./assets/'' @
         EncodeToString RawURLEncoding (map (rand_stream sample_env) [0..<32]) @ ''.png'')
       (take (fst (c (''./assets/'' @
         EncodeToString RawURLEncoding (map (rand_stream sample_env) [0..<32]) @ ''.png'')
         [137, 80, 78, 71, 13])) [137, 80, 78, 71, 13]),
     VideoUpdated \<lparr>ID = video1, UserID = alice,
       ThumbnailURL = Some (''http://localhost:8091/assets/'' @
         EncodeToString RawURLEncoding (map (rand_stream sample_env) [0..<32]) @ ''.png''),
       VideoURL = None\<rparr>])"
  apply (simp add: handlerUploadThumbnail_def Let_def case_prod_beta sample_uuid_Parse
        sample_GetBearerToken sample_ValidateJWT sample_GetVideo sample_env_fields
        sample_FormFile_parsed sample_files sample_ParseMediaType ReadAll_def rand_Read_def
        sample_no_spill sample_sizes)
  apply (simp add: Let_def UpdateVideo_def sample_db_def sample_env_fields
        sample_cfg_def png_file_def emit_def)
  done





text \<open>
  Claim C4, as amended. For every request to the thumbnail upload handler whose form file
  declares a content type that parses neither to \<^verbatim>\<open>image/jpeg\<close> nor to \<^verbatim>\<open>image/png\<close>,
  the handler creates and writes no file, does not answer with success and leaves the
  store as it was; when the identifier, the token, the read of the file, the record
  lookup and the ownership check pass, it answers 400. (\<open>10485760\<close> is the
  \<^verbatim>\<open>maxMemory\<close> of line 42, \<^verbatim>\<open>10 << 20\<close>.)
\<close>

theorem thumbnail_wrong_content_type:
  assumes "FormFile (fst (ParseMultipartForm r 10485760)) ''thumbnail'' = Inr header"
    and "ParseMediaType env (fh_ContentType header) \<noteq> Inr ''image/jpeg''"
    and "ParseMediaType env (fh_ContentType header) \<noteq> Inr ''image/png''"
  shows "(\<forall>p. FileCreated p \<notin> set (effects_of (handlerUploadThumbnail env cfg r d)))
       \<and> (\<forall>p bytes. FileWritten p bytes \<notin> set (effects_of (handlerUploadThumbnail env cfg r d)))
       \<and> status (response_of (handlerUploadThumbnail env cfg r d)) \<noteq> StatusOK
       \<and> store_of (handlerUploadThumbnail env cfg r d) = d
       \<and> (\<forall>videoID token userID bytes videoMeta.
             uuid_Parse env (PathValue r ''videoID'') = Inr videoID \<and>
             GetBearerToken env (Header r) = Inr token \<and>
             ValidateJWT env token (jwtSecret cfg) = Inr userID \<and>
             ReadAll env header = Inr bytes \<and>
             GetVideo env d videoID = Inr videoMeta \<and>
             UserID videoMeta = userID \<longrightarrow>
             status (response_of (handlerUploadThumbnail env cfg r d)) = StatusBadRequest)"
proof -
  have created: "\<forall>p. FileCreated p \<notin> set (effects_of (handlerUploadThumbnail env cfg r d))"
    using assms(2,3)
    by (simp add: handlerUploadThumbnail_def Let_def case_prod_beta assms(1) split: sum.splits)
  have written: "\<forall>p bytes. FileWritten p bytes \<notin> set (effects_of (handlerUploadThumbnail env cfg r d))"
    using assms(2,3)
    by (simp add: handlerUploadThumbnail_def Let_def case_prod_beta assms(1) split: sum.splits)
  have not_ok: "status (response_of (handlerUploadThumbnail env cfg r d)) \<noteq> StatusOK"
    using assms(2,3)
    by (simp add: handlerUploadThumbnail_def Let_def case_prod_beta assms(1) StatusOK_def
          StatusBadRequest_def StatusUnauthorized_def StatusInternalServerError_def
          split: sum.splits)
  have same: "store_of (handlerUploadThumbnail env cfg r d) = d"
    using assms(2,3)
    by (simp add: handlerUploadThumbnail_def Let_def case_prod_beta assms(1) split: sum.splits)
  have bad: "\<forall>videoID token userID bytes videoMeta.
             uuid_Parse env (PathValue r ''videoID'') = Inr videoID \<and>
             GetBearerToken env (Header r) = Inr token \<and>
             ValidateJWT env token (jwtSecret cfg) = Inr userID \<and>
             ReadAll env header = Inr bytes \<and>
             GetVideo env d videoID = Inr videoMeta \<and>
             UserID videoMeta = userID \<longrightarrow>
             status (response_of (handlerUploadThumbnail env cfg r d)) = StatusBadRequest"
    using assms(2,3)
    by (simp add: handlerUploadThumbnail_def Let_def case_prod_beta assms(1) split: sum.splits)
  from created written not_ok same bad show ?thesis by (intro conjI)
qed


theorem thumbnail_wrong_content_type_witness:
  "(\<forall>p. FileCreated p \<notin> set (effects_of (handlerUploadThumbnail sample_env sample_cfg
      (sample_request ''token-of-alice'' ''thumbnail'' text_file) sample_db)))
   \<and> status (response_of (handlerUploadThumbnail sample_env sample_cfg
      (sample_request ''token-of-alice'' ''thumbnail'' text_file) sample_db)) = StatusBadRequest"
proof -
  let ?r = "sample_request ''token-of-alice'' ''thumbnail'' text_file"
  let ?v = "\<lparr>ID = video1, UserID = alice, ThumbnailURL = None, VideoURL = None\<rparr>"
  have not_jpeg: "ParseMediaType sample_env (fh_ContentType text_file) \<noteq> Inr ''image/jpeg''"
    by (simp add: sample_files sample_ParseMediaType)
  have not_png: "ParseMediaType sample_env (fh_ContentType text_file) \<noteq> Inr ''image/png''"
    by (simp add: sample_files sample_ParseMediaType)
  note all = thumbnail_wrong_content_type
    [where env = sample_env and cfg = sample_cfg and d = sample_db,
     OF sample_FormFile_parsed not_jpeg not_png]
  have steps: "uuid_Parse sample_env (PathValue ?r ''videoID'') = Inr video1 \<and>
      GetBearerToken sample_env (Header ?r) = Inr ''token-of-alice'' \<and>
      ValidateJWT sample_env ''token-of-alice'' (jwtSecret sample_cfg) = Inr alice \<and>
      ReadAll sample_env text_file = Inr (content text_file) \<and>
      GetVideo sample_env sample_db video1 = Inr ?v \<and>
      UserID ?v = alice"
    by (simp add: sample_uuid_Parse sample_GetBearerToken sample_ValidateJWT sample_GetVideo
          sample_env_fields ReadAll_def)
  have bad: "status (response_of (handlerUploadThumbnail sample_env sample_cfg ?r sample_db)) =
      StatusBadRequest"
    using all [THEN conjunct2, THEN conjunct2, THEN conjunct2, THEN conjunct2,
               THEN spec, THEN spec, THEN spec, THEN spec, THEN spec, THEN mp, OF steps] .
  from all [THEN conjunct1] bad show ?thesis by (rule conjI)
qed

text \<open>
  Claim C4 as stated promises 400 for every such request. The checks that come first in
  the handler answer first: Bob, who does not own the video, uploads a \<^verbatim>\<open>text/plain\<close>
  thumbnail and gets 401.
\<close>

theorem thumbnail_wrong_content_type_counterexample:
  "FormFile (fst (ParseMultipartForm (sample_request ''token-of-bob'' ''thumbnail'' text_file)
      10485760)) ''thumbnail'' = Inr text_file
   \<and> ParseMediaType sample_env (fh_ContentType text_file) = Inr ''text/plain''
   \<and> status (response_of (handlerUploadThumbnail sample_env sample_cfg
         (sample_request ''token-of-bob'' ''thumbnail'' text_file) sample_db)) =
       StatusUnauthorized
   \<and> StatusUnauthorized \<noteq> StatusBadRequest"
  by (simp add: sample_FormFile_parsed sample_files sample_ParseMediaType
        handlerUploadThumbnail_def Let_def case_prod_beta ReadAll_def
        sample_uuid_Parse sample_GetBearerToken sample_ValidateJWT sample_GetVideo
        sample_env_fields alice_def bob_def StatusUnauthorized_def StatusBadRequest_def)

lemma sample_parse_with_query_error:
  "FormFile (fst (ParseMultipartForm
      ((sample_request token field file)\<lparr>ParseForm_error := e\<rparr>) n)) field = Inr file"
  "snd (ParseMultipartForm ((sample_request token field file)\<lparr>ParseForm_error := e\<rparr>) n) = e"
  by (simp_all add: FormFile_def ParseMultipartForm_def read_form_def too_large_def
        sample_request_def)

lemma thumbnail_ignores_copy_result:
  "response_of (handlerUploadThumbnail (env\<lparr>io_Copy := c\<rparr>) cfg r d) =
     response_of (handlerUploadThumbnail env cfg r d)
   \<and> store_of (handlerUploadThumbnail (env\<lparr>io_Copy := c\<rparr>) cfg r d) =
     store_of (handlerUploadThumbnail env cfg r d)"
  by (simp add: handlerUploadThumbnail_def Let_def case_prod_beta ReadAll_def GetVideo_def
        UpdateVideo_def rand_Read_def split: sum.splits option.splits)

lemma thumbnail_not_owner:
  assumes "uuid_Parse env (PathValue r ''videoID'') = Inr videoID"
    and "GetBearerToken env (Header r) = Inr token"
    and "ValidateJWT env token (jwtSecret cfg) = Inr userID"
    and "FormFile (fst (ParseMultipartForm r 10485760)) ''thumbnail'' = Inr header"
    and "ReadAll env header = Inr bytes"
    and "GetVideo env d videoID = Inr videoMeta"
    and "UserID videoMeta \<noteq> userID"
  shows "response_of (handlerUploadThumbnail env cfg r d) =
           respondWithError StatusUnauthorized ''Not your video'' None
       \<and> store_of (handlerUploadThumbnail env cfg r d) = d"
  by (simp add: handlerUploadThumbnail_def Let_def case_prod_beta assms)

lemma video_not_owner:
  assumes "uuid_Parse env (PathValue r ''videoID'') = Inr videoID"
    and "GetBearerToken env (Header r) = Inr token"
    and "ValidateJWT env token (jwtSecret cfg) = Inr userID"
    and "GetVideo env d videoID = Inr videoDb"
    and "UserID videoDb \<noteq> userID"
  shows "handlerUploadVideo env cfg r d =
           (respondWithError StatusUnauthorized ''User does not own video'' None, d, [])"
  by (simp add: handlerUploadVideo_def Let_def assms)

lemma thumbnail_error_keeps_store:
  "status (response_of (handlerUploadThumbnail env cfg r d)) \<noteq> StatusOK \<longrightarrow>
   store_of (handlerUploadThumbnail env cfg r d) = d"
  by (simp add: handlerUploadThumbnail_def Let_def case_prod_beta
        StatusOK_def StatusBadRequest_def StatusUnauthorized_def StatusInternalServerError_def
        split: sum.splits option.splits)

lemma video_error_keeps_store:
  "status (response_of (handlerUploadVideo env cfg r d)) \<noteq> StatusOK \<longrightarrow>
   store_of (handlerUploadVideo env cfg r d) = d"
  by (simp add: handlerUploadVideo_def Let_def case_prod_beta
        StatusOK_def StatusBadRequest_def StatusUnauthorized_def StatusInternalServerError_def
        split: sum.splits option.splits)


lemma sample_thumbnail_query_error_ok:
  "status (response_of (handlerUploadThumbnail sample_env sample_cfg
     ((sample_request ''token-of-alice'' ''thumbnail'' png_file)
        \<lparr>ParseForm_error := Some (Error ''invalid URL escape'')\<rparr>) sample_db)) = StatusOK"
  apply (simp add: handlerUploadThumbnail_def Let_def case_prod_beta sample_uuid_Parse
        sample_GetBearerToken sample_ValidateJWT sample_GetVideo sample_env_fields
        sample_parse_with_query_error sample_files sample_ParseMediaType ReadAll_def
        rand_Read_def)
  apply (simp add: Let_def UpdateVideo_def sample_env_fields)
  done

text \<open>
  Claim C9. For some inputs the thumbnail upload answers 200 and updates the record
  although the image was not written: when \<^verbatim>\<open>io.Copy\<close> writes two of the five bytes and
  fails, the handler still answers 200 with the empty object and stores the thumbnail
  URL; when \<^verbatim>\<open>ParseMultipartForm\<close> returns an error (of the URL query) the handler still
  answers 200. In general neither the response nor the store depends on what
  \<^verbatim>\<open>io.Copy\<close> returns.
\<close>

theorem thumbnail_write_errors_dropped:
  "handlerUploadThumbnail
     (sample_env\<lparr>io_Copy := \<lambda>path bytes. (2, Some (Error ''no space left on device''))\<rparr>)
     sample_cfg (sample_request ''token-of-alice'' ''thumbnail'' png_file) sample_db =
   (respondWithJSON StatusOK EmptyObject,
    [\<lparr>ID = video1, UserID = alice,
       ThumbnailURL = Some (''http://localhost:8091/assets/'' @
         EncodeToString RawURLEncoding (map (rand_stream sample_env) [0..<32]) @ ''.png''),
       VideoURL = None\<rparr>],
    [Printed,
     FileCreated (''./assets/'' @
         EncodeToString RawURLEncoding (map (rand_stream sample_env) [0..<32]) @ ''.png''),
     FileWritten (''./assets/'' @
         EncodeToString RawURLEncoding (map (rand_stream sample_env) [0..<32]) @ ''.png'')
       [137, 80],
     VideoUpdated \<lparr>ID = video1, UserID = alice,
       ThumbnailURL = Some (''http://localhost:8091/assets/'' @
         EncodeToString RawURLEncoding (map (rand_stream sample_env) [0..<32]) @ ''.png''),
       VideoURL = None\<rparr>])
   \<and> content png_file = [137, 80, 78, 71, 13]
   \<and> snd (ParseMultipartForm
         ((sample_request ''token-of-alice'' ''thumbnail'' png_file)
            \<lparr>ParseForm_error := Some (Error ''invalid URL escape'')\<rparr>) 10485760) =
       Some (Error ''invalid URL escape'')
   \<and> status (response_of (handlerUploadThumbnail sample_env sample_cfg
         ((sample_request ''token-of-alice'' ''thumbnail'' png_file)
            \<lparr>ParseForm_error := Some (Error ''invalid URL escape'')\<rparr>) sample_db)) = StatusOK
   \<and> response_of (handlerUploadThumbnail (env\<lparr>io_Copy := c\<rparr>) cfg r d) =
       response_of (handlerUploadThumbnail env cfg r d)
   \<and> store_of (handlerUploadThumbnail (env\<lparr>io_Copy := c\<rparr>) cfg r d) =
       store_of (handlerUploadThumbnail env cfg r d)"
proof -
  have run: "handlerUploadThumbnail
     (sample_env\<lparr>io_Copy := \<lambda>path bytes. (2, Some (Error ''no space left on device''))\<rparr>)
     sample_cfg (sample_request ''token-of-alice'' ''thumbnail'' png_file) sample_db =
   (respondWithJSON StatusOK EmptyObject,
    [\<lparr>ID = video1, UserID = alice,
       ThumbnailURL = Some (''http://localhost:8091/assets/'' @
         EncodeToString RawURLEncoding (map (rand_stream sample_env) [0..<32]) @ ''.png''),
       VideoURL = None\<rparr>],
    [Printed,
     FileCreated (''./assets/'' @
         EncodeToString RawURLEncoding (map (rand_stream sample_env) [0..<32]) @ ''.png''),
     FileWritten (''./assets/'' @
         EncodeToString RawURLEncoding (map (rand_stream sample_env) [0..<32]) @ ''.png'')
       [137, 80],
     VideoUpdated \<lparr>ID = video1, UserID = alice,
       ThumbnailURL = Some (''http://localhost:8091/assets/'' @
         EncodeToString RawURLEncoding (map (rand_stream sample_env) [0..<32]) @ ''.png''),
       VideoURL = None\<rparr>])"
    by (simp add: sample_thumbnail_outcome)
  have bytes: "content png_file = [137, 80, 78, 71, 13]"
    by (simp add: png_file_def)
  note indep = thumbnail_ignores_copy_result [where env = env and c = c and cfg = cfg and r = r and d = d]
  from run bytes sample_parse_with_query_error(2) sample_thumbnail_query_error_ok
    indep [THEN conjunct1] indep [THEN conjunct2]
  show ?thesis by (intro conjI)
qed

text \<open>
  Claim C7. The claim says that a failure of any step skips the remaining steps and
  leaves the record unchanged. Every error response does leave the store unchanged
  (\<open>thumbnail_error_keeps_store\<close>, \<open>video_error_keeps_store\<close>), but a failed copy of
  the thumbnail bytes is no error path: with \<^verbatim>\<open>io.Copy\<close> failing after writing nothing,
  the handler answers 200 and the store is changed.
\<close>

theorem thumbnail_failed_copy_updates_record:
  "status (response_of (handlerUploadThumbnail
      (sample_env\<lparr>io_Copy := \<lambda>path bytes. (0, Some (Error ''input/output error''))\<rparr>)
      sample_cfg (sample_request ''token-of-alice'' ''thumbnail'' png_file) sample_db)) = StatusOK
   \<and> store_of (handlerUploadThumbnail
      (sample_env\<lparr>io_Copy := \<lambda>path bytes. (0, Some (Error ''input/output error''))\<rparr>)
      sample_cfg (sample_request ''token-of-alice'' ''thumbnail'' png_file) sample_db) \<noteq> sample_db
   \<and> FileWritten (''./assets/'' @
         EncodeToString RawURLEncoding (map (rand_stream sample_env) [0..<32]) @ ''.png'') []
       \<in> set (effects_of (handlerUploadThumbnail
      (sample_env\<lparr>io_Copy := \<lambda>path bytes. (0, Some (Error ''input/output error''))\<rparr>)
      sample_cfg (sample_request ''token-of-alice'' ''thumbnail'' png_file) sample_db))"
  unfolding sample_thumbnail_outcome by (simp add: sample_db_def)

section \<open>Generated names\<close>











lemma rename_files_fields [simp]:
  "PathValue (rename_files g r) = PathValue r"
  "Header (rename_files g r) = Header r"
  "Body (rename_files g r) = Body r"
  by (simp_all add: rename_files_def)












end
